theory Spec2Isabelle
  imports Complex_Main "HOL-Library.Word"
begin

section \<open>JavaScript values of the request bodies and of the stored documents\<close>

text \<open>
  The handlers of \<^verbatim>\<open>server.js\<close> read the fields of \<^verbatim>\<open>req.body\<close> and of the stored
  documents as plain JavaScript values. A field that is absent reads as \<^verbatim>\<open>undefined\<close>.
  The model has the scalar values: \<^verbatim>\<open>undefined\<close>, \<^verbatim>\<open>null\<close>, booleans, finite numbers,
  strings, and the \<^verbatim>\<open>Date\<close> that \<^verbatim>\<open>new Date()\<close> stores in \<^verbatim>\<open>uploadedAt\<close>. Arrays and
  nested objects are outside the model.
\<close>

datatype jsval = JUndefined | JNull | JBool bool | JNum rat | JStr string | JDate nat

text \<open>\<^verbatim>\<open>!x\<close> is \<open>\<not> truthy x\<close>: the falsy values are undefined, null, false, 0 and the empty string.\<close>

fun truthy :: "jsval \<Rightarrow> bool" where
  "truthy JUndefined = False"
| "truthy JNull = False"
| "truthy (JBool b) = b"
| "truthy (JNum n) = (n \<noteq> 0)"
| "truthy (JStr s) = (s \<noteq> [])"
| "truthy (JDate t) = True"

text \<open>\<^verbatim>\<open>a || b\<close>\<close>

definition js_or :: "jsval \<Rightarrow> jsval \<Rightarrow> jsval" where
  "js_or a b = (if truthy a then a else b)"

text \<open>\<^verbatim>\<open>a === b\<close>: scalars compare by value, objects (here: dates) by reference, and a value
  read from the store is never the same object as a value of the request.\<close>

fun strict_eq :: "jsval \<Rightarrow> jsval \<Rightarrow> bool" where
  "strict_eq (JDate s) b = False"
| "strict_eq a (JDate t) = False"
| "strict_eq a b = (a = b)"

section \<open>Documents and the collection\<close>

text \<open>An \<^verbatim>\<open>ObjectId\<close>, held as its hexadecimal string (what \<^verbatim>\<open>toString()\<close> returns).\<close>

datatype oid = Oid (toString: string)

text \<open>\<^verbatim>\<open>req.file\<close> as multer's memory storage leaves it.\<close>

record multer_file =
  originalname :: string
  mimetype :: string
  buffer :: "8 word list"

text \<open>
  A document of the \<^verbatim>\<open>files\<close> collection: the \<^verbatim>\<open>fileDoc\<close> of \<^verbatim>\<open>/submit-form\<close> with the
  \<^verbatim>\<open>_id\<close> the driver adds. \<^verbatim>\<open>category\<close> is \<open>JUndefined\<close> in documents written by
  \<^verbatim>\<open>server.js\<close>, which stores no category.
\<close>

record file_doc =
  id' :: oid
  filename :: string
  contentType :: string
  data :: "8 word list"
  uploadedAt :: nat
  status :: jsval
  passkey :: jsval
  category :: jsval
  feedback :: jsval

type_synonym collection = "file_doc list"

text \<open>The operations of the driver that the handlers call, on a collection kept in
  insertion order (the order of \<^verbatim>\<open>find({}).toArray()\<close>).\<close>

fun findOne :: "(file_doc \<Rightarrow> bool) \<Rightarrow> collection \<Rightarrow> file_doc option" where
  "findOne q [] = None"
| "findOne q (d # ds) = (if q d then Some d else findOne q ds)"

datatype driver_error = DuplicateKey

text \<open>\<^verbatim>\<open>insertOne(fileDoc)\<close>: the driver generates the \<^verbatim>\<open>_id\<close> (\<open>gen\<close>, an input of the
  model); the unique index on \<^verbatim>\<open>_id\<close> refuses an identifier that is already stored.\<close>

definition insertOne :: "oid \<Rightarrow> file_doc \<Rightarrow> collection \<Rightarrow> driver_error + (collection \<times> oid)" where
  "insertOne gen fileDoc c =
     (if findOne (\<lambda>d. id' d = gen) c \<noteq> None then Inl DuplicateKey
      else Inr (c @ [fileDoc\<lparr>id' := gen\<rparr>], gen))"

text \<open>\<^verbatim>\<open>updateOne(filter, {$set: ...})\<close>: the first matching document is updated; the
  result is the collection and \<^verbatim>\<open>modifiedCount\<close>, which is 0 when nothing matched and
  also when the matched document already holds the value.\<close>

fun updateOne :: "(file_doc \<Rightarrow> bool) \<Rightarrow> (file_doc \<Rightarrow> file_doc) \<Rightarrow> collection \<Rightarrow> collection \<times> nat" where
  "updateOne q u [] = ([], 0)"
| "updateOne q u (d # ds) =
     (if q d then (if u d = d then (d # ds, 0) else (u d # ds, 1))
      else (case updateOne q u ds of (ds', n) \<Rightarrow> (d # ds', n)))"

text \<open>\<^verbatim>\<open>deleteOne(filter)\<close>: the first matching document is removed; the result is the
  collection and \<^verbatim>\<open>deletedCount\<close>.\<close>

fun deleteOne :: "(file_doc \<Rightarrow> bool) \<Rightarrow> collection \<Rightarrow> collection \<times> nat" where
  "deleteOne q [] = ([], 0)"
| "deleteOne q (d # ds) =
     (if q d then (ds, 1)
      else (case deleteOne q ds of (ds', n) \<Rightarrow> (d # ds', n)))"

text \<open>\<^verbatim>\<open>deleteMany({})\<close>\<close>

definition deleteMany_all :: "collection \<Rightarrow> collection \<times> nat" where
  "deleteMany_all c = ([], length c)"

section \<open>Responses\<close>

type_synonym json_object = "(string \<times> jsval) list"

datatype body =
    Failure string
  | Success string
  | FileId oid
  | Files "json_object list"
  | Feedback jsval
  | Sent "(string \<times> string) list" "8 word list"

text \<open>
  \<open>Failure m\<close> is \<^verbatim>\<open>{success: false, message: m}\<close>, \<open>Success m\<close> is
  \<^verbatim>\<open>{success: true, message: m}\<close>, and so on for \<^verbatim>\<open>fileId\<close>, \<^verbatim>\<open>files\<close> and
  \<^verbatim>\<open>feedback\<close>; \<open>Sent hs bs\<close> is \<^verbatim>\<open>res.set(hs); res.send(bs)\<close>. A reply is a status
  code with a body, an error that a middleware hands to Express with \<^verbatim>\<open>next(err)\<close>
  (no handler of the route runs), or no route at all.
\<close>

datatype reply = Reply nat body | NextError string | Unrouted

section \<open>The upload middleware\<close>

text \<open>\<^verbatim>\<open>fileFilter\<close> of \<^verbatim>\<open>server.js\<close>: \<open>Inr True\<close> is \<^verbatim>\<open>cb(null, true)\<close>, \<open>Inl e\<close> is
  \<^verbatim>\<open>cb(new Error(e), false)\<close>.\<close>

definition fileFilter :: "multer_file \<Rightarrow> string + bool" where
  "fileFilter file =
     (if mimetype file = ''application/pdf'' then Inr True
      else Inl ''Only PDF files allowed'')"

text \<open>The same filter in the category-aware versions; only the message differs.\<close>

definition fileFilter_category :: "multer_file \<Rightarrow> string + bool" where
  "fileFilter_category file =
     (if mimetype file = ''application/pdf'' then Inr True
      else Inl ''Only PDF files are allowed'')"

text \<open>The \<^verbatim>\<open>resume\<close> part of the multipart form.\<close>

datatype upload = NoFile | FilePart multer_file

text \<open>\<^verbatim>\<open>upload.single("resume")\<close>: an error of the filter aborts the request; a file the
  filter skips leaves \<^verbatim>\<open>req.file\<close> undefined; an accepted file is buffered in memory.\<close>

fun upload_single :: "(multer_file \<Rightarrow> string + bool) \<Rightarrow> upload \<Rightarrow> string + multer_file option" where
  "upload_single flt NoFile = Inr None"
| "upload_single flt (FilePart f) =
     (case flt f of
        Inl err \<Rightarrow> Inl err
      | Inr include \<Rightarrow> Inr (if include then Some f else None))"

section \<open>The handlers of \<^verbatim>\<open>server.js\<close>\<close>

text \<open>
  Every handler takes the collection and returns it with the reply. \<open>ObjectId\<close> is the
  driver's constructor \<^verbatim>\<open>new ObjectId(x)\<close>, a parameter: \<open>None\<close> when it throws. \<open>now\<close>
  is \<^verbatim>\<open>new Date()\<close> and \<open>gen\<close> the identifier the driver generates for the insert.
\<close>

definition submit_form :: "nat \<Rightarrow> oid \<Rightarrow> jsval \<Rightarrow> multer_file option \<Rightarrow> collection \<Rightarrow> collection \<times> reply" where
  "submit_form now gen body_passkey req_file c =
     (if \<not> truthy body_passkey then (c, Reply 400 (Failure ''Passkey is required''))
      else case findOne (\<lambda>d. passkey d = body_passkey) c of
        Some existingFile \<Rightarrow> (c, Reply 400 (Failure ''Passkey already in use. Choose another.''))
      | None \<Rightarrow>
         (case req_file of
            None \<Rightarrow> (c, Reply 400 (Failure ''No file uploaded''))
          | Some f \<Rightarrow>
             (case insertOne gen
                     \<lparr>id' = gen, filename = originalname f, contentType = mimetype f,
                      data = buffer f, uploadedAt = now, status = JStr ''under_processing'',
                      passkey = body_passkey, category = JUndefined, feedback = JNull\<rparr> c of
                Inl error \<Rightarrow> (c, Reply 500 (Failure ''File upload failed''))
              | Inr (c', insertedId) \<Rightarrow> (c', Reply 200 (FileId insertedId)))))"

text \<open>The route \<^verbatim>\<open>app.post("/submit-form", upload.single("resume"), handler)\<close>.\<close>

definition submit_form_route :: "nat \<Rightarrow> oid \<Rightarrow> jsval \<Rightarrow> upload \<Rightarrow> collection \<Rightarrow> collection \<times> reply" where
  "submit_form_route now gen body_passkey part c =
     (case upload_single fileFilter part of
        Inl err \<Rightarrow> (c, NextError err)
      | Inr req_file \<Rightarrow> submit_form now gen body_passkey req_file c)"

definition file_by_passkey :: "string \<Rightarrow> collection \<Rightarrow> collection \<times> reply" where
  "file_by_passkey params_passkey c =
     (case findOne (\<lambda>d. passkey d = JStr params_passkey) c of
        None \<Rightarrow> (c, Reply 404 (Failure ''File not found''))
      | Some file \<Rightarrow>
          (c, Reply 200 (Sent [(''Content-Type'', contentType file), (''Content-Disposition'', ''inline'')]
                              (data file))))"

definition get_files :: "collection \<Rightarrow> collection \<times> reply" where
  "get_files c =
     (c, Reply 200 (Files (map (\<lambda>file.
        [(''_id'', JStr (toString (id' file))),
         (''filename'', JStr (filename file)),
         (''status'', status file),
         (''passkey'', passkey file),
         (''feedback'', feedback file)]) c)))"

definition update_status :: "(jsval \<Rightarrow> oid option) \<Rightarrow> jsval \<Rightarrow> jsval \<Rightarrow> collection \<Rightarrow> collection \<times> reply" where
  "update_status ObjectId body_id body_status c =
     (if \<not> truthy body_id \<or> \<not> truthy body_status then (c, Reply 400 (Failure ''Missing parameters''))
      else case ObjectId body_id of
        None \<Rightarrow> (c, Reply 500 (Failure ''Error updating status''))
      | Some i \<Rightarrow>
         (case updateOne (\<lambda>d. id' d = i) (\<lambda>d. d\<lparr>status := body_status\<rparr>) c of
            (c', modifiedCount) \<Rightarrow>
              if modifiedCount = 0
              then (c', Reply 404 (Failure ''File not found or status not updated''))
              else (c', Reply 200 (Success ''Status updated successfully''))))"

definition submit_feedback :: "(jsval \<Rightarrow> oid option) \<Rightarrow> jsval \<Rightarrow> jsval \<Rightarrow> collection \<Rightarrow> collection \<times> reply" where
  "submit_feedback ObjectId body_id body_feedback c =
     (if \<not> truthy body_id \<or> \<not> truthy body_feedback then (c, Reply 400 (Failure ''Missing parameters''))
      else case ObjectId body_id of
        None \<Rightarrow> (c, Reply 500 (Failure ''Error submitting feedback''))
      | Some i \<Rightarrow>
         (case updateOne (\<lambda>d. id' d = i) (\<lambda>d. d\<lparr>feedback := body_feedback\<rparr>) c of
            (c', modifiedCount) \<Rightarrow>
              if modifiedCount = 0
              then (c', Reply 404 (Failure ''File not found or feedback not updated''))
              else (c', Reply 200 (Success ''Feedback submitted successfully''))))"

definition get_feedback :: "(jsval \<Rightarrow> oid option) \<Rightarrow> jsval \<Rightarrow> jsval \<Rightarrow> collection \<Rightarrow> collection \<times> reply" where
  "get_feedback ObjectId body_fileId body_passkey c =
     (if \<not> truthy body_fileId \<or> \<not> truthy body_passkey then (c, Reply 400 (Failure ''Missing parameters''))
      else case ObjectId body_fileId of
        None \<Rightarrow> (c, Reply 500 (Failure ''Error fetching feedback''))
      | Some i \<Rightarrow>
         (case findOne (\<lambda>d. id' d = i) c of
            None \<Rightarrow> (c, Reply 404 (Failure ''File not found''))
          | Some file \<Rightarrow>
              if \<not> strict_eq (passkey file) body_passkey
              then (c, Reply 403 (Failure ''Incorrect passkey''))
              else (c, Reply 200 (Feedback (js_or (feedback file) (JStr ''No feedback provided yet.''))))))"

definition file_by_id :: "(jsval \<Rightarrow> oid option) \<Rightarrow> string \<Rightarrow> collection \<Rightarrow> collection \<times> reply" where
  "file_by_id ObjectId params_id c =
     (case ObjectId (JStr params_id) of
        None \<Rightarrow> (c, Reply 500 (Failure ''Error fetching file''))
      | Some i \<Rightarrow>
         (case findOne (\<lambda>d. id' d = i) c of
            None \<Rightarrow> (c, Reply 404 (Failure ''File not found''))
          | Some file \<Rightarrow>
              (c, Reply 200 (Sent [(''Content-Type'', contentType file), (''Content-Disposition'', ''inline'')]
                                  (data file)))))"

section \<open>The handlers of the category-aware versions\<close>

text \<open>
  \<^verbatim>\<open>/submit-form\<close> of the versions that store a category (\<^verbatim>\<open>part_001\<close>, \<^verbatim>\<open>part_003\<close>):
  the category is required too, and the file is checked before the passkey is looked up.
\<close>

definition submit_form_category :: "nat \<Rightarrow> oid \<Rightarrow> jsval \<Rightarrow> jsval \<Rightarrow> multer_file option \<Rightarrow> collection \<Rightarrow> collection \<times> reply" where
  "submit_form_category now gen body_passkey body_category req_file c =
     (if \<not> truthy body_passkey \<or> \<not> truthy body_category
      then (c, Reply 400 (Failure ''Passkey and Category are required''))
      else case req_file of
        None \<Rightarrow> (c, Reply 400 (Failure ''No PDF file uploaded''))
      | Some f \<Rightarrow>
         (case findOne (\<lambda>d. passkey d = body_passkey) c of
            Some existingFile \<Rightarrow> (c, Reply 400 (Failure ''Passkey already in use. Choose another.''))
          | None \<Rightarrow>
             (case insertOne gen
                     \<lparr>id' = gen, filename = originalname f, contentType = mimetype f,
                      data = buffer f, uploadedAt = now, status = JStr ''under_processing'',
                      passkey = body_passkey, category = body_category, feedback = JNull\<rparr> c of
                Inl error \<Rightarrow> (c, Reply 500 (Failure ''File upload failed''))
              | Inr (c', insertedId) \<Rightarrow> (c', Reply 200 (FileId insertedId)))))"

definition submit_form_category_route :: "nat \<Rightarrow> oid \<Rightarrow> jsval \<Rightarrow> jsval \<Rightarrow> upload \<Rightarrow> collection \<Rightarrow> collection \<times> reply" where
  "submit_form_category_route now gen body_passkey body_category part c =
     (case upload_single fileFilter_category part of
        Inl err \<Rightarrow> (c, NextError err)
      | Inr req_file \<Rightarrow> submit_form_category now gen body_passkey body_category req_file c)"

text \<open>\<^verbatim>\<open>/get-files\<close> of \<^verbatim>\<open>part_003\<close>: the category is added.\<close>

definition get_files_category :: "collection \<Rightarrow> collection \<times> reply" where
  "get_files_category c =
     (c, Reply 200 (Files (map (\<lambda>file.
        [(''_id'', JStr (toString (id' file))),
         (''filename'', JStr (filename file)),
         (''status'', status file),
         (''passkey'', passkey file),
         (''feedback'', feedback file),
         (''category'', js_or (category file) (JStr ''Uncategorized''))]) c)))"

text \<open>\<^verbatim>\<open>/get-files\<close> of \<^verbatim>\<open>part_001\<close> (lines 88 to 106): the upload date is added, under
  the key \<^verbatim>\<open>uploadDate\<close>.\<close>

definition get_files_uploadDate :: "collection \<Rightarrow> collection \<times> reply" where
  "get_files_uploadDate c =
     (c, Reply 200 (Files (map (\<lambda>file.
        [(''_id'', JStr (toString (id' file))),
         (''filename'', JStr (filename file)),
         (''status'', status file),
         (''passkey'', passkey file),
         (''feedback'', feedback file),
         (''category'', js_or (category file) (JStr ''Uncategorized'')),
         (''uploadDate'', JDate (uploadedAt file))]) c)))"

text \<open>The deletion handlers of \<^verbatim>\<open>part_003\<close>, in the order of the file.\<close>

definition delete_all_files :: "collection \<Rightarrow> collection \<times> reply" where
  "delete_all_files c =
     (case deleteMany_all c of
        (c', deletedCount) \<Rightarrow>
          if deletedCount = 0 then (c', Reply 404 (Failure ''No files to delete''))
          else (c', Reply 200 (Success ''All files deleted successfully'')))"

definition delete_file :: "(jsval \<Rightarrow> oid option) \<Rightarrow> string \<Rightarrow> collection \<Rightarrow> collection \<times> reply" where
  "delete_file ObjectId params_id c =
     (case ObjectId (JStr params_id) of
        None \<Rightarrow> (c, Reply 500 (Failure ''Error during file deletion''))
      | Some i \<Rightarrow>
         (case deleteOne (\<lambda>d. id' d = i) c of
            (c', deletedCount) \<Rightarrow>
              if deletedCount = 0
              then (c', Reply 404 (Failure ''File not found or already deleted''))
              else (c', Reply 200 (Success ''File deleted successfully''))))"

text \<open>\<^verbatim>\<open>DELETE /delete-file/:id\<close> "with Passkey Check" (\<^verbatim>\<open>part_003\<close>, lines 405 to 435).\<close>

definition delete_file_passkey :: "(jsval \<Rightarrow> oid option) \<Rightarrow> string \<Rightarrow> jsval \<Rightarrow> collection \<Rightarrow> collection \<times> reply" where
  "delete_file_passkey ObjectId fileId body_passkey c =
     (if \<not> truthy body_passkey then (c, Reply 400 (Failure ''Passkey is required''))
      else case ObjectId (JStr fileId) of
        None \<Rightarrow> (c, Reply 500 (Failure ''Error during file deletion''))
      | Some i \<Rightarrow>
         (case findOne (\<lambda>d. id' d = i) c of
            None \<Rightarrow> (c, Reply 404 (Failure ''File not found''))
          | Some file \<Rightarrow>
              if \<not> strict_eq (passkey file) body_passkey
              then (c, Reply 403 (Failure ''Invalid passkey. File not deleted.''))
              else (case deleteOne (\<lambda>d. id' d = i) c of
                      (c', deletedCount) \<Rightarrow>
                        if deletedCount = 0
                        then (c', Reply 500 (Failure ''Failed to delete file''))
                        else (c', Reply 200 (Success ''File deleted successfully'')))))"

section \<open>Routing\<close>

text \<open>
  A request, already split into the route pattern it fits and the fields the handlers
  read: path parameters are strings, body fields are JavaScript values (\<open>JUndefined\<close>
  when the field is absent).
\<close>

datatype request =
    POST_submit_form jsval jsval upload
  | GET_file_passkey string
  | GET_get_files
  | POST_update_status jsval jsval
  | POST_submit_feedback jsval jsval
  | POST_get_feedback jsval jsval
  | GET_file string
  | DELETE_delete_all_files
  | DELETE_delete_file string jsval

text \<open>
  A registered route answers a request it matches with its handler. Express tries the
  routes in the order of registration; no handler of this program calls \<^verbatim>\<open>next()\<close>, so
  the first route that matches answers and the later ones are never tried.
\<close>

type_synonym route = "request \<Rightarrow> (collection \<Rightarrow> collection \<times> reply) option"

fun dispatch :: "route list \<Rightarrow> request \<Rightarrow> collection \<Rightarrow> collection \<times> reply" where
  "dispatch [] req c = (c, Unrouted)"
| "dispatch (r # rs) req c = (case r req of Some handler \<Rightarrow> handler c | None \<Rightarrow> dispatch rs req c)"

fun on_submit_form :: "(jsval \<Rightarrow> jsval \<Rightarrow> upload \<Rightarrow> collection \<Rightarrow> collection \<times> reply) \<Rightarrow> route" where
  "on_submit_form h (POST_submit_form body_passkey body_category part) = Some (h body_passkey body_category part)"
| "on_submit_form h req = None"

fun on_file_passkey :: "(string \<Rightarrow> collection \<Rightarrow> collection \<times> reply) \<Rightarrow> route" where
  "on_file_passkey h (GET_file_passkey params_passkey) = Some (h params_passkey)"
| "on_file_passkey h req = None"

fun on_get_files :: "(collection \<Rightarrow> collection \<times> reply) \<Rightarrow> route" where
  "on_get_files h GET_get_files = Some h"
| "on_get_files h req = None"

fun on_update_status :: "(jsval \<Rightarrow> jsval \<Rightarrow> collection \<Rightarrow> collection \<times> reply) \<Rightarrow> route" where
  "on_update_status h (POST_update_status body_id body_status) = Some (h body_id body_status)"
| "on_update_status h req = None"

fun on_submit_feedback :: "(jsval \<Rightarrow> jsval \<Rightarrow> collection \<Rightarrow> collection \<times> reply) \<Rightarrow> route" where
  "on_submit_feedback h (POST_submit_feedback body_id body_feedback) = Some (h body_id body_feedback)"
| "on_submit_feedback h req = None"

fun on_get_feedback :: "(jsval \<Rightarrow> jsval \<Rightarrow> collection \<Rightarrow> collection \<times> reply) \<Rightarrow> route" where
  "on_get_feedback h (POST_get_feedback body_fileId body_passkey) = Some (h body_fileId body_passkey)"
| "on_get_feedback h req = None"

fun on_file :: "(string \<Rightarrow> collection \<Rightarrow> collection \<times> reply) \<Rightarrow> route" where
  "on_file h (GET_file params_id) = Some (h params_id)"
| "on_file h req = None"

fun on_delete_all_files :: "(collection \<Rightarrow> collection \<times> reply) \<Rightarrow> route" where
  "on_delete_all_files h DELETE_delete_all_files = Some h"
| "on_delete_all_files h req = None"

fun on_delete_file :: "(string \<Rightarrow> jsval \<Rightarrow> collection \<Rightarrow> collection \<times> reply) \<Rightarrow> route" where
  "on_delete_file h (DELETE_delete_file params_id body_passkey) = Some (h params_id body_passkey)"
| "on_delete_file h req = None"

text \<open>The routes of \<^verbatim>\<open>server.js\<close>, in the order of the file. The handler of
  \<^verbatim>\<open>/submit-form\<close> reads only the passkey of the body.\<close>

definition server_js :: "(jsval \<Rightarrow> oid option) \<Rightarrow> nat \<Rightarrow> oid \<Rightarrow> route list" where
  "server_js ObjectId now gen =
     [on_submit_form (\<lambda>body_passkey body_category. submit_form_route now gen body_passkey),
      on_file_passkey file_by_passkey,
      on_get_files get_files,
      on_update_status (update_status ObjectId),
      on_submit_feedback (submit_feedback ObjectId),
      on_get_feedback (get_feedback ObjectId),
      on_file (file_by_id ObjectId)]"

text \<open>The routes of \<^verbatim>\<open>part_003\<close> (its second file, lines 192 to 444), in the order of
  the file: \<^verbatim>\<open>DELETE /delete-file/:id\<close> is registered twice, first without and then
  with the passkey check. The first handler reads no body.\<close>

definition part_003 :: "(jsval \<Rightarrow> oid option) \<Rightarrow> nat \<Rightarrow> oid \<Rightarrow> route list" where
  "part_003 ObjectId now gen =
     [on_submit_form (submit_form_category_route now gen),
      on_file_passkey file_by_passkey,
      on_get_files get_files_category,
      on_update_status (update_status ObjectId),
      on_submit_feedback (submit_feedback ObjectId),
      on_get_feedback (get_feedback ObjectId),
      on_file (file_by_id ObjectId),
      on_delete_all_files delete_all_files,
      on_delete_file (\<lambda>params_id body_passkey. delete_file ObjectId params_id),
      on_delete_file (delete_file_passkey ObjectId)]"

text \<open>A run of the server: the requests are answered one after the other, each with the
  clock reading and the identifier the driver would generate at that moment.\<close>

fun serve :: "(nat \<Rightarrow> oid \<Rightarrow> route list) \<Rightarrow> (nat \<times> oid \<times> request) list \<Rightarrow> collection \<Rightarrow> collection" where
  "serve app [] c = c"
| "serve app ((now, gen, req) # rs) c = serve app rs (fst (dispatch (app now gen) req c))"

section \<open>A constructor of identifiers, and sample data\<close>

text \<open>
  An instance of \<^verbatim>\<open>new ObjectId(x)\<close> for the examples: a string of 24 hexadecimal digits
  gives the identifier with these digits in lower case, every other value makes it
  throw. The theorems below hold for every constructor.
\<close>

definition hexdigit :: "char \<Rightarrow> bool" where
  "hexdigit ch = (ch \<in> set ''0123456789abcdefABCDEF'')"

definition lower_hex :: "char \<Rightarrow> char" where
  "lower_hex ch =
     (if ch = CHR ''A'' then CHR ''a'' else if ch = CHR ''B'' then CHR ''b''
      else if ch = CHR ''C'' then CHR ''c'' else if ch = CHR ''D'' then CHR ''d''
      else if ch = CHR ''E'' then CHR ''e'' else if ch = CHR ''F'' then CHR ''f'' else ch)"

fun hexObjectId :: "jsval \<Rightarrow> oid option" where
  "hexObjectId (JStr s) =
     (if length s = 24 \<and> list_all hexdigit s then Some (Oid (map lower_hex s)) else None)"
| "hexObjectId v = None"

definition sample_id :: string where
  "sample_id = ''65f0a1b2c3d4e5f601234567''"

definition sample_pdf :: multer_file where
  "sample_pdf = \<lparr>originalname = ''cv.pdf'', mimetype = ''application/pdf'', buffer = [37, 80, 68, 70]\<rparr>"

definition sample_doc :: file_doc where
  "sample_doc =
     \<lparr>id' = Oid sample_id, filename = ''cv.pdf'', contentType = ''application/pdf'',
      data = [37, 80, 68, 70], uploadedAt = 1700000000000, status = JStr ''under_processing'',
      passkey = JStr ''abc123'', category = JUndefined, feedback = JNull\<rparr>"

section \<open>Invariants of the collection\<close>

definition pdf_only :: "collection \<Rightarrow> bool" where
  "pdf_only c = list_all (\<lambda>d. contentType d = ''application/pdf'') c"

text \<open>What the interface can store as feedback: \<^verbatim>\<open>null\<close> (no feedback yet) or a truthy value.\<close>

definition feedback_storable :: "collection \<Rightarrow> bool" where
  "feedback_storable c = list_all (\<lambda>d. feedback d = JNull \<or> truthy (feedback d)) c"

section \<open>Facts about the sample data and the driver operations\<close>

lemma hexObjectId_sample: "hexObjectId (JStr sample_id) = Some (Oid sample_id)"
  by (simp add: sample_id_def hexdigit_def lower_hex_def)

lemma hexObjectId_xyz: "hexObjectId (JStr ''xyz'') = None"
  by simp

declare hexObjectId.simps [simp del]

lemma sample_id_nonempty: "sample_id \<noteq> []"
  by (simp add: sample_id_def)

lemma sample_id_other: "sample_id \<noteq> ''65f0a1b2c3d4e5f601234568''"
  by (simp add: sample_id_def)

lemma findOne_None_iff: "(findOne q c = None) = (\<forall>d\<in>set c. \<not> q d)"
  by (induction c) auto

lemma findOne_SomeD: "findOne q c = Some d \<Longrightarrow> d \<in> set c \<and> q d"
  by (induction c) (auto split: if_splits)

lemma findOne_append:
  "findOne q (c @ [e]) = (case findOne q c of Some d \<Rightarrow> Some d | None \<Rightarrow> if q e then Some e else None)"
  by (induction c) auto

lemma set_status_same: "(d\<lparr>status := v\<rparr> = d) = (status d = v)"
  by (cases d) auto

lemma set_feedback_same: "(d\<lparr>feedback := v\<rparr> = d) = (feedback d = v)"
  by (cases d) auto

lemma updateOne_unmatched: "findOne q c = None \<Longrightarrow> updateOne q u c = (c, 0)"
  by (induction c) (auto split: if_splits)

lemma updateOne_count: "findOne q c = Some d \<Longrightarrow> snd (updateOne q u c) = (if u d = d then 0 else 1)"
  by (induction c) (auto split: if_splits prod.splits)

lemma updateOne_unmodified: "snd (updateOne q u c) = 0 \<Longrightarrow> fst (updateOne q u c) = c"
  by (induction c) (auto split: if_splits prod.splits)

lemma updateOne_findOne:
  "findOne q c = Some d \<Longrightarrow> q (u d) \<Longrightarrow> findOne q (fst (updateOne q u c)) = Some (u d)"
  by (induction c) (auto split: if_splits prod.splits)

text \<open>The test \<^verbatim>\<open>modifiedCount === 0\<close>, read on the collection before the update.\<close>

lemma updateOne_reply:
  "(case updateOne q u c of (c', n) \<Rightarrow> if n = 0 then (c', a) else (c', b)) =
     (case findOne q c of
        None \<Rightarrow> (c, a)
      | Some d \<Rightarrow> if u d = d then (c, a) else (fst (updateOne q u c), b))"
proof (cases "findOne q c")
  case None
  then show ?thesis by (simp add: updateOne_unmatched)
next
  case (Some d)
  show ?thesis
    using updateOne_count [OF Some, of u] updateOne_unmodified [of q u c]
    by (auto simp: Some split: prod.splits)
qed

lemma update_status_reply:
  "update_status ObjectId body_id body_status c =
     (if \<not> truthy body_id \<or> \<not> truthy body_status then (c, Reply 400 (Failure ''Missing parameters''))
      else case ObjectId body_id of
        None \<Rightarrow> (c, Reply 500 (Failure ''Error updating status''))
      | Some i \<Rightarrow>
         (case findOne (\<lambda>d. id' d = i) c of
            None \<Rightarrow> (c, Reply 404 (Failure ''File not found or status not updated''))
          | Some d \<Rightarrow>
              if status d = body_status
              then (c, Reply 404 (Failure ''File not found or status not updated''))
              else (fst (updateOne (\<lambda>d. id' d = i) (\<lambda>d. d\<lparr>status := body_status\<rparr>) c),
                    Reply 200 (Success ''Status updated successfully''))))"
  unfolding update_status_def updateOne_reply
  by (simp add: set_status_same split: option.splits)

lemma submit_feedback_reply:
  "submit_feedback ObjectId body_id body_feedback c =
     (if \<not> truthy body_id \<or> \<not> truthy body_feedback then (c, Reply 400 (Failure ''Missing parameters''))
      else case ObjectId body_id of
        None \<Rightarrow> (c, Reply 500 (Failure ''Error submitting feedback''))
      | Some i \<Rightarrow>
         (case findOne (\<lambda>d. id' d = i) c of
            None \<Rightarrow> (c, Reply 404 (Failure ''File not found or feedback not updated''))
          | Some d \<Rightarrow>
              if feedback d = body_feedback
              then (c, Reply 404 (Failure ''File not found or feedback not updated''))
              else (fst (updateOne (\<lambda>d. id' d = i) (\<lambda>d. d\<lparr>feedback := body_feedback\<rparr>) c),
                    Reply 200 (Success ''Feedback submitted successfully''))))"
  unfolding submit_feedback_def updateOne_reply
  by (simp add: set_feedback_same split: option.splits)

lemma deleteOne_matched: "findOne q c = Some d \<Longrightarrow> snd (deleteOne q c) = 1"
  by (induction c) (auto split: if_splits prod.splits)

lemma deleteOne_length: "findOne q c = Some d \<Longrightarrow> Suc (length (fst (deleteOne q c))) = length c"
  by (induction c) (auto split: if_splits prod.splits)

lemma updateOne_map:
  "updateOne q u c = (c', n) \<Longrightarrow> (\<And>d. g (u d) = g d) \<Longrightarrow> map g c' = map g c"
  by (induction c arbitrary: c' n) (auto split: prod.splits if_splits)

lemma update_keeps_contentType:
  "map contentType (fst (update_status ObjectId body_id v c)) = map contentType c"
  "map contentType (fst (submit_feedback ObjectId body_id v c)) = map contentType c"
  by (auto simp: update_status_def submit_feedback_def split: option.splits prod.splits
        dest: updateOne_map [where g = contentType])

section \<open>Properties of the stored documents that every handler keeps\<close>

lemma updateOne_list_all:
  "updateOne q u c = (c', n) \<Longrightarrow> list_all P c \<Longrightarrow> (\<And>d. P d \<Longrightarrow> P (u d)) \<Longrightarrow> list_all P c'"
  by (induction c arbitrary: c' n) (auto split: prod.splits if_splits)

lemma deleteOne_list_all: "deleteOne q c = (c', n) \<Longrightarrow> list_all P c \<Longrightarrow> list_all P c'"
  by (induction c arbitrary: c' n) (auto split: prod.splits if_splits)

lemma submit_form_list_all:
  "list_all P c \<Longrightarrow>
   (\<And>f. req_file = Some f \<Longrightarrow>
      P \<lparr>id' = gen, filename = originalname f, contentType = mimetype f,
        data = buffer f, uploadedAt = now, status = JStr ''under_processing'',
        passkey = body_passkey, category = JUndefined, feedback = JNull\<rparr>) \<Longrightarrow>
   list_all P (fst (submit_form now gen body_passkey req_file c))"
  by (auto simp: submit_form_def insertOne_def split: option.splits)

lemma submit_form_category_list_all:
  "list_all P c \<Longrightarrow>
   (\<And>f. req_file = Some f \<Longrightarrow>
      P \<lparr>id' = gen, filename = originalname f, contentType = mimetype f,
        data = buffer f, uploadedAt = now, status = JStr ''under_processing'',
        passkey = body_passkey, category = body_category, feedback = JNull\<rparr>) \<Longrightarrow>
   list_all P (fst (submit_form_category now gen body_passkey body_category req_file c))"
  by (auto simp: submit_form_category_def insertOne_def split: option.splits)

lemma update_status_list_all:
  "list_all P c \<Longrightarrow> (\<And>d. P d \<Longrightarrow> truthy v \<Longrightarrow> P (d\<lparr>status := v\<rparr>)) \<Longrightarrow>
   list_all P (fst (update_status ObjectId body_id v c))"
  by (auto simp: update_status_def split: option.splits prod.splits
        elim: updateOne_list_all [where u = "\<lambda>d. d\<lparr>status := v\<rparr>"])

lemma submit_feedback_list_all:
  "list_all P c \<Longrightarrow> (\<And>d. P d \<Longrightarrow> truthy v \<Longrightarrow> P (d\<lparr>feedback := v\<rparr>)) \<Longrightarrow>
   list_all P (fst (submit_feedback ObjectId body_id v c))"
  by (auto simp: submit_feedback_def split: option.splits prod.splits
        elim: updateOne_list_all [where u = "\<lambda>d. d\<lparr>feedback := v\<rparr>"])

lemma delete_file_list_all: "list_all P c \<Longrightarrow> list_all P (fst (delete_file ObjectId params_id c))"
  by (auto simp: delete_file_def split: option.splits prod.splits elim: deleteOne_list_all)

lemma delete_file_passkey_list_all:
  "list_all P c \<Longrightarrow> list_all P (fst (delete_file_passkey ObjectId fileId body_passkey c))"
  by (auto simp: delete_file_passkey_def split: option.splits prod.splits elim: deleteOne_list_all)

lemma readers_unchanged:
  "fst (file_by_passkey params_passkey c) = c"
  "fst (get_files c) = c"
  "fst (get_files_category c) = c"
  "fst (get_files_uploadDate c) = c"
  "fst (get_feedback ObjectId body_fileId body_passkey c) = c"
  "fst (file_by_id ObjectId params_id c) = c"
  by (auto simp: file_by_passkey_def get_files_def get_files_category_def get_files_uploadDate_def
        get_feedback_def file_by_id_def split: option.splits)

lemma delete_all_files_empty: "fst (delete_all_files c) = []"
  by (simp add: delete_all_files_def deleteMany_all_def)

lemma upload_single_pdf:
  "upload_single fileFilter part = Inr (Some f) \<Longrightarrow> mimetype f = ''application/pdf''"
  "upload_single fileFilter_category part = Inr (Some f) \<Longrightarrow> mimetype f = ''application/pdf''"
  by (cases part; auto simp: fileFilter_def fileFilter_category_def split: if_splits)+

lemma server_js_list_all:
  assumes "list_all P c"
    and "\<And>(f :: multer_file) pk. mimetype f = ''application/pdf'' \<Longrightarrow> truthy pk \<Longrightarrow>
           P \<lparr>id' = gen, filename = originalname f, contentType = mimetype f,
             data = buffer f, uploadedAt = now, status = JStr ''under_processing'',
             passkey = pk, category = JUndefined, feedback = JNull\<rparr>"
    and "\<And>d v. P d \<Longrightarrow> truthy v \<Longrightarrow> P (d\<lparr>status := v\<rparr>)"
    and "\<And>d v. P d \<Longrightarrow> truthy v \<Longrightarrow> P (d\<lparr>feedback := v\<rparr>)"
  shows "list_all P (fst (dispatch (server_js ObjectId now gen) req c))"
proof (cases req)
  case (POST_submit_form pk cat part)
  show ?thesis
  proof (cases "upload_single fileFilter part")
    case (Inl err)
    then show ?thesis using assms(1) POST_submit_form by (simp add: server_js_def submit_form_route_def)
  next
    case (Inr req_file)
    show ?thesis
    proof (cases "truthy pk")
      case True
      have "list_all P (fst (submit_form now gen pk req_file c))"
      proof (rule submit_form_list_all [OF assms(1)])
        fix f assume "req_file = Some f"
        then have "mimetype f = ''application/pdf''"
          using Inr upload_single_pdf(1) by simp
        then show "P \<lparr>id' = gen, filename = originalname f, contentType = mimetype f,
             data = buffer f, uploadedAt = now, status = JStr ''under_processing'',
             passkey = pk, category = JUndefined, feedback = JNull\<rparr>"
          using True by (rule assms(2))
      qed
      then show ?thesis using POST_submit_form Inr by (simp add: server_js_def submit_form_route_def)
    next
      case False
      then show ?thesis using assms(1) POST_submit_form Inr
        by (simp add: server_js_def submit_form_route_def submit_form_def)
    qed
  qed
next
  case (POST_update_status body_id v)
  then show ?thesis using assms(1,3) by (simp add: server_js_def update_status_list_all)
next
  case (POST_submit_feedback body_id v)
  then show ?thesis using assms(1,4) by (simp add: server_js_def submit_feedback_list_all)
qed (use assms(1) in \<open>simp_all add: server_js_def readers_unchanged\<close>)

lemma part_003_list_all:
  assumes "list_all P c"
    and "\<And>(f :: multer_file) pk cat. mimetype f = ''application/pdf'' \<Longrightarrow> truthy pk \<Longrightarrow>
           P \<lparr>id' = gen, filename = originalname f, contentType = mimetype f,
             data = buffer f, uploadedAt = now, status = JStr ''under_processing'',
             passkey = pk, category = cat, feedback = JNull\<rparr>"
    and "\<And>d v. P d \<Longrightarrow> truthy v \<Longrightarrow> P (d\<lparr>status := v\<rparr>)"
    and "\<And>d v. P d \<Longrightarrow> truthy v \<Longrightarrow> P (d\<lparr>feedback := v\<rparr>)"
  shows "list_all P (fst (dispatch (part_003 ObjectId now gen) req c))"
proof (cases req)
  case (POST_submit_form pk cat part)
  show ?thesis
  proof (cases "upload_single fileFilter_category part")
    case (Inl err)
    then show ?thesis using assms(1) POST_submit_form by (simp add: part_003_def submit_form_category_route_def)
  next
    case (Inr req_file)
    show ?thesis
    proof (cases "truthy pk")
      case True
      have "list_all P (fst (submit_form_category now gen pk cat req_file c))"
      proof (rule submit_form_category_list_all [OF assms(1)])
        fix f assume "req_file = Some f"
        then have "mimetype f = ''application/pdf''"
          using Inr upload_single_pdf(2) by simp
        then show "P \<lparr>id' = gen, filename = originalname f, contentType = mimetype f,
             data = buffer f, uploadedAt = now, status = JStr ''under_processing'',
             passkey = pk, category = cat, feedback = JNull\<rparr>"
          using True by (rule assms(2))
      qed
      then show ?thesis using POST_submit_form Inr by (simp add: part_003_def submit_form_category_route_def)
    next
      case False
      then show ?thesis using assms(1) POST_submit_form Inr
        by (simp add: part_003_def submit_form_category_route_def submit_form_category_def)
    qed
  qed
next
  case (POST_update_status body_id v)
  then show ?thesis using assms(1,3) by (simp add: part_003_def update_status_list_all)
next
  case (POST_submit_feedback body_id v)
  then show ?thesis using assms(1,4) by (simp add: part_003_def submit_feedback_list_all)
next
  case (DELETE_delete_file params_id body_passkey)
  then show ?thesis using assms(1) by (simp add: part_003_def delete_file_list_all)
qed (use assms(1) in \<open>simp_all add: part_003_def readers_unchanged delete_all_files_empty\<close>)

lemma pdf_only_step:
  "pdf_only c \<Longrightarrow> pdf_only (fst (dispatch (server_js ObjectId now gen) req c))"
  "pdf_only c \<Longrightarrow> pdf_only (fst (dispatch (part_003 ObjectId now gen) req c))"
  unfolding pdf_only_def
  by (rule server_js_list_all part_003_list_all; simp)+

lemma feedback_storable_step:
  "feedback_storable c \<Longrightarrow> feedback_storable (fst (dispatch (server_js ObjectId now gen) req c))"
  "feedback_storable c \<Longrightarrow> feedback_storable (fst (dispatch (part_003 ObjectId now gen) req c))"
  unfolding feedback_storable_def
  by (rule server_js_list_all part_003_list_all; simp)+

lemma pdf_only_serve:
  "pdf_only c \<Longrightarrow> pdf_only (serve (server_js ObjectId) rs c)"
  "pdf_only c \<Longrightarrow> pdf_only (serve (part_003 ObjectId) rs c)"
  by (induction rs arbitrary: c; auto simp: pdf_only_step)+

lemma feedback_storable_serve:
  "feedback_storable c \<Longrightarrow> feedback_storable (serve (server_js ObjectId) rs c)"
  "feedback_storable c \<Longrightarrow> feedback_storable (serve (part_003 ObjectId) rs c)"
  by (induction rs arbitrary: c; auto simp: feedback_storable_step)+

section \<open>Upload and retrieval\<close>

text \<open>
  Claim C1. A valid PDF upload (a file part whose declared type is \<^verbatim>\<open>application/pdf\<close>,
  with a truthy passkey that no stored document has) is answered by \<^verbatim>\<open>/submit-form\<close>
  with status 200 and the generated \<^verbatim>\<open>fileId\<close>; \<^verbatim>\<open>GET /file/:id\<close> with a path
  identifier that denotes this \<^verbatim>\<open>fileId\<close> then sends exactly the uploaded bytes, with
  the stored content type and an inline disposition. The driver is taken to generate an
  identifier that no stored document has, as its unique index on \<^verbatim>\<open>_id\<close> demands.
\<close>

theorem submit_then_fetch:
  assumes "truthy body_passkey"
    and "\<forall>d\<in>set c. passkey d \<noteq> body_passkey"
    and "mimetype f = ''application/pdf''"
    and "\<forall>d\<in>set c. id' d \<noteq> gen"
    and "ObjectId (JStr params_id) = Some gen"
  shows "snd (submit_form_route now gen body_passkey (FilePart f) c) = Reply 200 (FileId gen) \<and>
         snd (file_by_id ObjectId params_id (fst (submit_form_route now gen body_passkey (FilePart f) c)))
           = Reply 200 (Sent [(''Content-Type'', ''application/pdf''), (''Content-Disposition'', ''inline'')]
                             (buffer f))"
proof -
  have p: "findOne (\<lambda>d. passkey d = body_passkey) c = None"
    using assms(2) by (simp add: findOne_None_iff)
  have i: "findOne (\<lambda>d. id' d = gen) c = None"
    using assms(4) by (simp add: findOne_None_iff)
  show ?thesis
    using assms(1,3,5) p i
    by (simp add: submit_form_route_def submit_form_def fileFilter_def insertOne_def
          file_by_id_def findOne_append)
qed

theorem submit_then_fetch_witness:
  "truthy (JStr ''abc123'') \<and> mimetype sample_pdf = ''application/pdf'' \<and>
   hexObjectId (JStr sample_id) = Some (Oid sample_id) \<and>
   snd (submit_form_route 1700000000000 (Oid sample_id) (JStr ''abc123'') (FilePart sample_pdf) [])
     = Reply 200 (FileId (Oid sample_id)) \<and>
   snd (file_by_id hexObjectId sample_id
          (fst (submit_form_route 1700000000000 (Oid sample_id) (JStr ''abc123'') (FilePart sample_pdf) [])))
     = Reply 200 (Sent [(''Content-Type'', ''application/pdf''), (''Content-Disposition'', ''inline'')]
                       [37, 80, 68, 70])"
  using submit_then_fetch [of "JStr ''abc123''" "[]" sample_pdf "Oid sample_id" hexObjectId sample_id 1700000000000]
  by (simp add: hexObjectId_sample sample_pdf_def)

text \<open>
  Claim C2, as stated, fails: the upload filter runs before the handler of
  \<^verbatim>\<open>/submit-form\<close>. A request that repeats a stored passkey but carries a file part that
  is not a PDF is stopped by the filter's error and never reaches the passkey test, so it
  is not answered with the 400 "Passkey already in use".
\<close>

theorem duplicate_passkey_non_pdf_counterexample:
  "truthy (JStr ''abc123'') \<and> sample_doc \<in> set [sample_doc] \<and> passkey sample_doc = JStr ''abc123'' \<and>
   submit_form_route 1700000000001 (Oid ''65f0a1b2c3d4e5f601234568'') (JStr ''abc123'')
       (FilePart (sample_pdf\<lparr>mimetype := ''image/png''\<rparr>)) [sample_doc]
     = ([sample_doc], NextError ''Only PDF files allowed'')"
  by (simp add: submit_form_route_def fileFilter_def sample_doc_def sample_pdf_def)

text \<open>
  Claim C2, amended. When a stored document already has the (truthy) passkey of the
  request, \<^verbatim>\<open>POST /submit-form\<close> is answered with 400 "Passkey already in use. Choose
  another." if the request carries no file part or a file part declared as
  \<^verbatim>\<open>application/pdf\<close>, and with the filter's error "Only PDF files allowed" if it carries
  a file part of another type; in every case the collection is unchanged, so no second
  document is created. The handler itself answers the 400 for whatever file the upload
  middleware hands over.
\<close>

theorem duplicate_passkey_conflict:
  assumes "truthy body_passkey"
    and "existing \<in> set c"
    and "passkey existing = body_passkey"
  shows "submit_form now gen body_passkey req_file c
           = (c, Reply 400 (Failure ''Passkey already in use. Choose another.'')) \<and>
         submit_form_route now gen body_passkey NoFile c
           = (c, Reply 400 (Failure ''Passkey already in use. Choose another.'')) \<and>
         (mimetype f = ''application/pdf'' \<longrightarrow>
            submit_form_route now gen body_passkey (FilePart f) c
              = (c, Reply 400 (Failure ''Passkey already in use. Choose another.''))) \<and>
         (mimetype f \<noteq> ''application/pdf'' \<longrightarrow>
            submit_form_route now gen body_passkey (FilePart f) c
              = (c, NextError ''Only PDF files allowed'')) \<and>
         fst (submit_form_route now gen body_passkey part c) = c"
proof -
  have "findOne (\<lambda>d. passkey d = body_passkey) c \<noteq> None"
    using assms(2,3) by (auto simp: findOne_None_iff)
  then obtain d where d: "findOne (\<lambda>d. passkey d = body_passkey) c = Some d"
    by blast
  have h: "submit_form now gen body_passkey r c
           = (c, Reply 400 (Failure ''Passkey already in use. Choose another.''))" for r
    using assms(1) d by (simp add: submit_form_def)
  have u: "fst (submit_form_route now gen body_passkey part c) = c"
    using h by (simp add: submit_form_route_def split: sum.splits)
  show ?thesis
    using h u by (simp add: submit_form_route_def fileFilter_def)
qed

theorem duplicate_passkey_conflict_witness:
  "truthy (JStr ''abc123'') \<and> sample_doc \<in> set [sample_doc] \<and> passkey sample_doc = JStr ''abc123'' \<and>
   submit_form 1700000000001 (Oid ''65f0a1b2c3d4e5f601234568'') (JStr ''abc123'') (Some sample_pdf) [sample_doc]
     = ([sample_doc], Reply 400 (Failure ''Passkey already in use. Choose another.'')) \<and>
   submit_form_route 1700000000001 (Oid ''65f0a1b2c3d4e5f601234568'') (JStr ''abc123'') NoFile [sample_doc]
     = ([sample_doc], Reply 400 (Failure ''Passkey already in use. Choose another.'')) \<and>
   submit_form_route 1700000000001 (Oid ''65f0a1b2c3d4e5f601234568'') (JStr ''abc123'') (FilePart sample_pdf) [sample_doc]
     = ([sample_doc], Reply 400 (Failure ''Passkey already in use. Choose another.''))"
  using duplicate_passkey_conflict [of "JStr ''abc123''" sample_doc "[sample_doc]" 1700000000001
      "Oid ''65f0a1b2c3d4e5f601234568''" "Some sample_pdf" sample_pdf "FilePart sample_pdf"]
  by (simp add: sample_doc_def sample_pdf_def)

section \<open>Review: status and feedback\<close>

text \<open>
  Claim C3, as stated, fails: \<^verbatim>\<open>/update-status\<close> tests \<^verbatim>\<open>modifiedCount\<close>, not the
  number of matched documents. Setting the status of a freshly uploaded document to
  \<^verbatim>\<open>"under_processing"\<close>, the value it already has, is answered with 404 although the
  document exists.
\<close>

theorem update_same_value_counterexample:
  "sample_doc \<in> set [sample_doc] \<and>
   hexObjectId (JStr sample_id) = Some (id' sample_doc) \<and>
   truthy (JStr sample_id) \<and> truthy (JStr ''under_processing'') \<and>
   update_status hexObjectId (JStr sample_id) (JStr ''under_processing'') [sample_doc]
     = ([sample_doc], Reply 404 (Failure ''File not found or status not updated''))"
  by (simp add: update_status_def hexObjectId_sample sample_doc_def sample_id_nonempty)

text \<open>
  Claim C3, amended. For \<^verbatim>\<open>/update-status\<close> with identifier and value \<open>v\<close>: a missing or
  falsy field gives 400; an identifier the driver's constructor rejects gives 500;
  otherwise the answer is 404 ("File not found or status not updated") exactly when the
  update modified nothing, that is when no document has the identifier or the (first)
  document with it already holds \<open>v\<close> as status, and the collection is unchanged; in the
  remaining case the answer is 200 and that document now has status \<open>v\<close>. Every truthy
  value is accepted, its content is not validated. \<^verbatim>\<open>/submit-feedback\<close> has the same
  contract on the feedback field.
\<close>

theorem update_contract:
  "(\<not> truthy body_id \<or> \<not> truthy v \<longrightarrow>
      update_status ObjectId body_id v c = (c, Reply 400 (Failure ''Missing parameters'')) \<and>
      submit_feedback ObjectId body_id v c = (c, Reply 400 (Failure ''Missing parameters''))) \<and>
   (truthy body_id \<and> truthy v \<and> ObjectId body_id = None \<longrightarrow>
      update_status ObjectId body_id v c = (c, Reply 500 (Failure ''Error updating status'')) \<and>
      submit_feedback ObjectId body_id v c = (c, Reply 500 (Failure ''Error submitting feedback''))) \<and>
   (truthy body_id \<and> truthy v \<and> ObjectId body_id = Some i \<longrightarrow>
      ((\<forall>d\<in>set c. id' d \<noteq> i) \<longrightarrow>
         update_status ObjectId body_id v c = (c, Reply 404 (Failure ''File not found or status not updated'')) \<and>
         submit_feedback ObjectId body_id v c = (c, Reply 404 (Failure ''File not found or feedback not updated''))) \<and>
      (findOne (\<lambda>d. id' d = i) c = Some d \<and> status d = v \<longrightarrow>
         update_status ObjectId body_id v c = (c, Reply 404 (Failure ''File not found or status not updated''))) \<and>
      (findOne (\<lambda>d. id' d = i) c = Some d \<and> status d \<noteq> v \<longrightarrow>
         snd (update_status ObjectId body_id v c) = Reply 200 (Success ''Status updated successfully'') \<and>
         findOne (\<lambda>d. id' d = i) (fst (update_status ObjectId body_id v c)) = Some (d\<lparr>status := v\<rparr>)) \<and>
      (findOne (\<lambda>d. id' d = i) c = Some d \<and> feedback d = v \<longrightarrow>
         submit_feedback ObjectId body_id v c = (c, Reply 404 (Failure ''File not found or feedback not updated''))) \<and>
      (findOne (\<lambda>d. id' d = i) c = Some d \<and> feedback d \<noteq> v \<longrightarrow>
         snd (submit_feedback ObjectId body_id v c) = Reply 200 (Success ''Feedback submitted successfully'') \<and>
         findOne (\<lambda>d. id' d = i) (fst (submit_feedback ObjectId body_id v c)) = Some (d\<lparr>feedback := v\<rparr>)))"
proof -
  have n: "(\<forall>d\<in>set c. id' d \<noteq> i) \<Longrightarrow> findOne (\<lambda>d. id' d = i) c = None"
    by (simp add: findOne_None_iff)
  have s: "findOne (\<lambda>d. id' d = i) c = Some d \<Longrightarrow>
           findOne (\<lambda>d. id' d = i) (fst (updateOne (\<lambda>d. id' d = i) (\<lambda>d. d\<lparr>status := v\<rparr>) c)) = Some (d\<lparr>status := v\<rparr>)"
    using updateOne_findOne [of "\<lambda>d. id' d = i" c d "\<lambda>d. d\<lparr>status := v\<rparr>"] findOne_SomeD [of "\<lambda>d. id' d = i" c d]
    by simp
  have f: "findOne (\<lambda>d. id' d = i) c = Some d \<Longrightarrow>
           findOne (\<lambda>d. id' d = i) (fst (updateOne (\<lambda>d. id' d = i) (\<lambda>d. d\<lparr>feedback := v\<rparr>) c)) = Some (d\<lparr>feedback := v\<rparr>)"
    using updateOne_findOne [of "\<lambda>d. id' d = i" c d "\<lambda>d. d\<lparr>feedback := v\<rparr>"] findOne_SomeD [of "\<lambda>d. id' d = i" c d]
    by simp
  show ?thesis
    using n s f by (simp add: update_status_reply submit_feedback_reply)
qed

theorem update_contract_witness:
  "truthy (JStr sample_id) \<and> truthy (JStr ''approved'') \<and>
   hexObjectId (JStr sample_id) = Some (Oid sample_id) \<and>
   snd (update_status hexObjectId (JStr sample_id) (JStr ''approved'') [sample_doc])
     = Reply 200 (Success ''Status updated successfully'') \<and>
   findOne (\<lambda>d. id' d = Oid sample_id) (fst (update_status hexObjectId (JStr sample_id) (JStr ''approved'') [sample_doc]))
     = Some (sample_doc\<lparr>status := JStr ''approved''\<rparr>) \<and>
   snd (submit_feedback hexObjectId (JStr sample_id) (JStr ''approved'') [sample_doc])
     = Reply 200 (Success ''Feedback submitted successfully'') \<and>
   update_status hexObjectId JUndefined (JStr ''approved'') [sample_doc]
     = ([sample_doc], Reply 400 (Failure ''Missing parameters''))"
  using update_contract [of "JStr sample_id" "JStr ''approved''" hexObjectId "[sample_doc]" "Oid sample_id" sample_doc]
    update_contract [of JUndefined "JStr ''approved''" hexObjectId "[sample_doc]" "Oid sample_id" sample_doc]
  by (simp add: hexObjectId_sample sample_doc_def sample_id_nonempty)

text \<open>
  Claim C4, as stated, fails: a request whose \<^verbatim>\<open>fileId\<close> is present but is not an
  identifier the driver can build (here \<^verbatim>\<open>"xyz"\<close>) is answered with 500, not with 404,
  because \<^verbatim>\<open>new ObjectId\<close> throws inside the handler's \<^verbatim>\<open>try\<close>.
\<close>

theorem get_feedback_malformed_counterexample:
  "truthy (JStr ''xyz'') \<and> truthy (JStr ''abc123'') \<and>
   hexObjectId (JStr ''xyz'') = None \<and>
   get_feedback hexObjectId (JStr ''xyz'') (JStr ''abc123'') [sample_doc]
     = ([sample_doc], Reply 500 (Failure ''Error fetching feedback''))"
  by (simp add: get_feedback_def hexObjectId_xyz)

text \<open>
  Claim C4, amended. For every \<^verbatim>\<open>/get-feedback\<close> request: a missing or falsy \<^verbatim>\<open>fileId\<close>
  or \<^verbatim>\<open>passkey\<close> gives 400; else a \<^verbatim>\<open>fileId\<close> the driver's constructor rejects gives
  500; else, when no document has the identifier, 404; else, when the passkey of the
  document is not strictly equal to the one supplied, 403; otherwise 200 with the stored
  feedback, or with "No feedback provided yet." when the stored feedback is \<^verbatim>\<open>null\<close> or
  another falsy value. The collection is never changed.
\<close>

theorem get_feedback_contract:
  "(\<not> truthy body_fileId \<or> \<not> truthy body_passkey \<longrightarrow>
      get_feedback ObjectId body_fileId body_passkey c = (c, Reply 400 (Failure ''Missing parameters''))) \<and>
   (truthy body_fileId \<and> truthy body_passkey \<and> ObjectId body_fileId = None \<longrightarrow>
      get_feedback ObjectId body_fileId body_passkey c = (c, Reply 500 (Failure ''Error fetching feedback''))) \<and>
   (truthy body_fileId \<and> truthy body_passkey \<and> ObjectId body_fileId = Some i \<and> (\<forall>d\<in>set c. id' d \<noteq> i) \<longrightarrow>
      get_feedback ObjectId body_fileId body_passkey c = (c, Reply 404 (Failure ''File not found''))) \<and>
   (truthy body_fileId \<and> truthy body_passkey \<and> ObjectId body_fileId = Some i \<and>
    findOne (\<lambda>d. id' d = i) c = Some file \<and> \<not> strict_eq (passkey file) body_passkey \<longrightarrow>
      get_feedback ObjectId body_fileId body_passkey c = (c, Reply 403 (Failure ''Incorrect passkey''))) \<and>
   (truthy body_fileId \<and> truthy body_passkey \<and> ObjectId body_fileId = Some i \<and>
    findOne (\<lambda>d. id' d = i) c = Some file \<and> strict_eq (passkey file) body_passkey \<longrightarrow>
      get_feedback ObjectId body_fileId body_passkey c
        = (c, Reply 200 (Feedback (if truthy (feedback file) then feedback file
                                   else JStr ''No feedback provided yet.''))))"
  using findOne_None_iff [of "\<lambda>d. id' d = i" c]
  by (auto simp: get_feedback_def js_or_def)

theorem get_feedback_contract_witness:
  "get_feedback hexObjectId JUndefined (JStr ''abc123'') [sample_doc]
     = ([sample_doc], Reply 400 (Failure ''Missing parameters'')) \<and>
   get_feedback hexObjectId (JStr sample_id) (JStr ''wrong'') [sample_doc]
     = ([sample_doc], Reply 403 (Failure ''Incorrect passkey'')) \<and>
   get_feedback hexObjectId (JStr sample_id) (JStr ''abc123'') [sample_doc]
     = ([sample_doc], Reply 200 (Feedback (JStr ''No feedback provided yet.''))) \<and>
   get_feedback hexObjectId (JStr sample_id) (JStr ''abc123'') [sample_doc\<lparr>feedback := JStr ''Good work''\<rparr>]
     = ([sample_doc\<lparr>feedback := JStr ''Good work''\<rparr>], Reply 200 (Feedback (JStr ''Good work'')))"
  using get_feedback_contract [of JUndefined "JStr ''abc123''" hexObjectId "[sample_doc]" "Oid sample_id" sample_doc]
    get_feedback_contract [of "JStr sample_id" "JStr ''wrong''" hexObjectId "[sample_doc]" "Oid sample_id" sample_doc]
    get_feedback_contract [of "JStr sample_id" "JStr ''abc123''" hexObjectId "[sample_doc]" "Oid sample_id" sample_doc]
    get_feedback_contract [of "JStr sample_id" "JStr ''abc123''" hexObjectId "[sample_doc\<lparr>feedback := JStr ''Good work''\<rparr>]"
       "Oid sample_id" "sample_doc\<lparr>feedback := JStr ''Good work''\<rparr>"]
  by (simp add: hexObjectId_sample sample_doc_def sample_id_nonempty)

text \<open>
  Claim C10. \<^verbatim>\<open>/get-feedback\<close> answers "No feedback provided yet." for every falsy stored
  feedback (the empty string as well as \<^verbatim>\<open>null\<close>), once identifier and passkey are
  accepted. \<^verbatim>\<open>/submit-feedback\<close> rejects every falsy feedback, the empty string among
  them, with 400 and leaves the collection unchanged. So the interface stores no empty
  string: if every stored feedback is \<^verbatim>\<open>null\<close> or truthy, it is so after every request
  and after every run of requests, in \<^verbatim>\<open>server.js\<close> and in \<^verbatim>\<open>part_003\<close>; in
  particular after every run that starts from the empty collection.
\<close>

theorem falsy_feedback_sentinel:
  "(truthy body_fileId \<and> truthy body_passkey \<and> ObjectId body_fileId = Some i \<and>
    findOne (\<lambda>d. id' d = i) c = Some file \<and> strict_eq (passkey file) body_passkey \<and>
    \<not> truthy (feedback file) \<longrightarrow>
      get_feedback ObjectId body_fileId body_passkey c
        = (c, Reply 200 (Feedback (JStr ''No feedback provided yet.'')))) \<and>
   (\<not> truthy v \<longrightarrow> submit_feedback ObjectId body_id v c = (c, Reply 400 (Failure ''Missing parameters''))) \<and>
   submit_feedback ObjectId body_id (JStr '''') c = (c, Reply 400 (Failure ''Missing parameters'')) \<and>
   (feedback_storable c \<longrightarrow>
      feedback_storable (fst (dispatch (server_js ObjectId now gen) req c)) \<and>
      feedback_storable (fst (dispatch (part_003 ObjectId now gen) req c)) \<and>
      feedback_storable (serve (server_js ObjectId) rs c) \<and>
      feedback_storable (serve (part_003 ObjectId) rs c) \<and>
      (\<forall>d\<in>set c. feedback d \<noteq> JStr '''')) \<and>
   (\<forall>d\<in>set (serve (server_js ObjectId) rs []). feedback d \<noteq> JStr '''') \<and>
   (\<forall>d\<in>set (serve (part_003 ObjectId) rs []). feedback d \<noteq> JStr '''')"
proof -
  have e: "feedback_storable k \<Longrightarrow> \<forall>d\<in>set k. feedback d \<noteq> JStr ''''" for k
    by (auto simp: feedback_storable_def list_all_iff)
  have z: "feedback_storable []"
    by (simp add: feedback_storable_def)
  have r: "\<forall>d\<in>set (serve (server_js ObjectId) rs []). feedback d \<noteq> JStr ''''"
    "\<forall>d\<in>set (serve (part_003 ObjectId) rs []). feedback d \<noteq> JStr ''''"
    by (rule e [OF feedback_storable_serve(1) [OF z]], rule e [OF feedback_storable_serve(2) [OF z]])
  have g: "truthy body_fileId \<and> truthy body_passkey \<and> ObjectId body_fileId = Some i \<and>
    findOne (\<lambda>d. id' d = i) c = Some file \<and> strict_eq (passkey file) body_passkey \<and>
    \<not> truthy (feedback file) \<longrightarrow>
      get_feedback ObjectId body_fileId body_passkey c
        = (c, Reply 200 (Feedback (JStr ''No feedback provided yet.'')))"
    by (simp add: get_feedback_def js_or_def)
  have u: "\<not> truthy w \<longrightarrow> submit_feedback ObjectId body_id w c = (c, Reply 400 (Failure ''Missing parameters''))" for w
    by (simp add: submit_feedback_def)
  show ?thesis
    using g u [of v] u [of "JStr ''''"] r e [of c]
    by (simp add: feedback_storable_step feedback_storable_serve)
qed

theorem falsy_feedback_sentinel_witness:
  "get_feedback hexObjectId (JStr sample_id) (JStr ''abc123'') [sample_doc\<lparr>feedback := JStr ''''\<rparr>]
     = ([sample_doc\<lparr>feedback := JStr ''''\<rparr>], Reply 200 (Feedback (JStr ''No feedback provided yet.''))) \<and>
   submit_feedback hexObjectId (JStr sample_id) (JStr '''') [sample_doc]
     = ([sample_doc], Reply 400 (Failure ''Missing parameters'')) \<and>
   feedback_storable [sample_doc] \<and>
   fst (dispatch (server_js hexObjectId 1700000000001 (Oid sample_id))
          (POST_submit_feedback (JStr sample_id) (JStr ''Good work'')) [sample_doc])
     = [sample_doc\<lparr>feedback := JStr ''Good work''\<rparr>] \<and>
   feedback_storable [sample_doc\<lparr>feedback := JStr ''Good work''\<rparr>] \<and>
   serve (server_js hexObjectId)
     [(1700000000000, Oid sample_id, POST_submit_form (JStr ''abc123'') JUndefined (FilePart sample_pdf)),
      (1700000000001, Oid sample_id, POST_submit_feedback (JStr sample_id) (JStr ''''))] []
     = [sample_doc]"
  using falsy_feedback_sentinel [of "JStr sample_id" "JStr ''abc123''" hexObjectId "Oid sample_id"
      "[sample_doc\<lparr>feedback := JStr ''''\<rparr>]" "sample_doc\<lparr>feedback := JStr ''''\<rparr>" "JStr ''''" "JStr sample_id"
      1700000000001 "Oid sample_id" "POST_submit_feedback (JStr sample_id) (JStr ''Good work'')"
      "[(1700000000000, Oid sample_id, POST_submit_form (JStr ''abc123'') JUndefined (FilePart sample_pdf)),
        (1700000000001, Oid sample_id, POST_submit_feedback (JStr sample_id) (JStr ''''))]"]
    falsy_feedback_sentinel [of "JStr sample_id" "JStr ''abc123''" hexObjectId "Oid sample_id"
      "[sample_doc]" "sample_doc" "JStr ''''" "JStr sample_id"
      1700000000001 "Oid sample_id" "POST_submit_feedback (JStr sample_id) (JStr ''Good work'')" "[]"]
  by (simp add: hexObjectId_sample sample_doc_def sample_pdf_def sample_id_nonempty feedback_storable_def
        server_js_def submit_feedback_def submit_form_route_def submit_form_def fileFilter_def insertOne_def)

section \<open>Serving a file by identifier\<close>

text \<open>
  Claim C7, as stated, fails: a malformed path identifier (here \<^verbatim>\<open>xyz\<close>) is answered
  with 500 "Error fetching file", the handler's \<^verbatim>\<open>catch\<close>, not with an invalid-request
  answer.
\<close>

theorem file_by_id_malformed_counterexample:
  "hexObjectId (JStr ''xyz'') = None \<and>
   file_by_id hexObjectId ''xyz'' [sample_doc] = ([sample_doc], Reply 500 (Failure ''Error fetching file''))"
  by (simp add: file_by_id_def hexObjectId_xyz)

text \<open>
  Claim C7, amended. For every \<^verbatim>\<open>GET /file/:id\<close> request: a path identifier the driver's
  constructor rejects gives 500 (internal error); an identifier that no document has
  gives 404; otherwise the answer is 200 with the stored \<^verbatim>\<open>data\<close>, the stored
  \<^verbatim>\<open>contentType\<close> as \<^verbatim>\<open>Content-Type\<close> and \<^verbatim>\<open>Content-Disposition: inline\<close>. The
  collection is never changed.
\<close>

theorem file_by_id_contract:
  "(ObjectId (JStr params_id) = None \<longrightarrow>
      file_by_id ObjectId params_id c = (c, Reply 500 (Failure ''Error fetching file''))) \<and>
   (ObjectId (JStr params_id) = Some i \<and> (\<forall>d\<in>set c. id' d \<noteq> i) \<longrightarrow>
      file_by_id ObjectId params_id c = (c, Reply 404 (Failure ''File not found''))) \<and>
   (ObjectId (JStr params_id) = Some i \<and> findOne (\<lambda>d. id' d = i) c = Some file \<longrightarrow>
      file_by_id ObjectId params_id c
        = (c, Reply 200 (Sent [(''Content-Type'', contentType file), (''Content-Disposition'', ''inline'')]
                              (data file))))"
  using findOne_None_iff [of "\<lambda>d. id' d = i" c]
  by (auto simp: file_by_id_def)

theorem file_by_id_contract_witness:
  "file_by_id hexObjectId ''xyz'' [sample_doc] = ([sample_doc], Reply 500 (Failure ''Error fetching file'')) \<and>
   file_by_id hexObjectId sample_id [] = ([], Reply 404 (Failure ''File not found'')) \<and>
   file_by_id hexObjectId sample_id [sample_doc]
     = ([sample_doc], Reply 200 (Sent [(''Content-Type'', ''application/pdf''), (''Content-Disposition'', ''inline'')]
                                      [37, 80, 68, 70]))"
  using file_by_id_contract [of hexObjectId "''xyz''" "[sample_doc]" "Oid sample_id" sample_doc]
    file_by_id_contract [of hexObjectId sample_id "[]" "Oid sample_id" sample_doc]
    file_by_id_contract [of hexObjectId sample_id "[sample_doc]" "Oid sample_id" sample_doc]
  by (simp add: hexObjectId_sample hexObjectId_xyz sample_doc_def sample_id_nonempty)

section \<open>The upload filter\<close>

text \<open>
  Claim C6. A file part whose declared content type is not \<^verbatim>\<open>application/pdf\<close> makes
  the file filter raise its error ("Only PDF files allowed": the unsupported media type
  condition), which the middleware hands to Express; the handler does not run and the
  collection is unchanged, so no document is inserted. The same holds for the
  category-aware versions of the route.
\<close>

theorem non_pdf_rejected:
  assumes "mimetype f \<noteq> ''application/pdf''"
  shows "submit_form_route now gen body_passkey (FilePart f) c = (c, NextError ''Only PDF files allowed'') \<and>
         submit_form_category_route now gen body_passkey body_category (FilePart f) c
           = (c, NextError ''Only PDF files are allowed'')"
  using assms
  by (simp add: submit_form_route_def submit_form_category_route_def fileFilter_def fileFilter_category_def)

theorem non_pdf_rejected_witness:
  "mimetype (sample_pdf\<lparr>mimetype := ''image/png''\<rparr>) \<noteq> ''application/pdf'' \<and>
   submit_form_route 1700000000001 (Oid sample_id) (JStr ''abc123'') (FilePart (sample_pdf\<lparr>mimetype := ''image/png''\<rparr>)) []
     = ([], NextError ''Only PDF files allowed'') \<and>
   submit_form_category_route 1700000000001 (Oid sample_id) (JStr ''abc123'') (JStr ''CS'')
       (FilePart (sample_pdf\<lparr>mimetype := ''image/png''\<rparr>)) []
     = ([], NextError ''Only PDF files are allowed'')"
  using non_pdf_rejected [of "sample_pdf\<lparr>mimetype := ''image/png''\<rparr>" 1700000000001 "Oid sample_id"
      "JStr ''abc123''" "[]" "JStr ''CS''"]
  by (simp add: sample_pdf_def)

text \<open>
  Claim C9. If every stored document has content type \<^verbatim>\<open>application/pdf\<close>, it is so after
  every request to \<^verbatim>\<open>server.js\<close> and to \<^verbatim>\<open>part_003\<close> (upload, status, feedback, reads
  and the deletions), after the passkey-checking deletion handler, and after every run
  of requests: \<^verbatim>\<open>/submit-form\<close> stores only what passed the filter, and
  \<^verbatim>\<open>/update-status\<close> and \<^verbatim>\<open>/submit-feedback\<close> leave the content type of every document
  as it is.
\<close>

theorem pdf_only_preserved:
  assumes "pdf_only c"
  shows "pdf_only (fst (dispatch (server_js ObjectId now gen) req c)) \<and>
         pdf_only (fst (dispatch (part_003 ObjectId now gen) req c)) \<and>
         pdf_only (fst (delete_file_passkey ObjectId fileId body_passkey c)) \<and>
         pdf_only (serve (server_js ObjectId) rs c) \<and>
         pdf_only (serve (part_003 ObjectId) rs c) \<and>
         map contentType (fst (update_status ObjectId body_id v c)) = map contentType c \<and>
         map contentType (fst (submit_feedback ObjectId body_id v c)) = map contentType c"
proof -
  have "pdf_only (fst (delete_file_passkey ObjectId fileId body_passkey c))"
    using assms unfolding pdf_only_def by (rule delete_file_passkey_list_all)
  then show ?thesis
    using assms by (simp add: pdf_only_step pdf_only_serve update_keeps_contentType)
qed

theorem pdf_only_preserved_witness:
  "pdf_only [] \<and>
   serve (server_js hexObjectId)
     [(1700000000000, Oid sample_id, POST_submit_form (JStr ''abc123'') JUndefined (FilePart sample_pdf)),
      (1700000000001, Oid ''65f0a1b2c3d4e5f601234568'',
         POST_submit_form (JStr ''xyz789'') JUndefined (FilePart (sample_pdf\<lparr>mimetype := ''image/png''\<rparr>)))] []
     = [sample_doc] \<and>
   pdf_only [sample_doc]"
  using pdf_only_preserved [where c = "[]" and ObjectId = hexObjectId and now = 0 and gen = "Oid sample_id"
      and req = GET_get_files and fileId = sample_id and body_passkey = JUndefined
      and body_id = JUndefined and v = JUndefined
      and rs = "[(1700000000000, Oid sample_id, POST_submit_form (JStr ''abc123'') JUndefined (FilePart sample_pdf)),
      (1700000000001, Oid ''65f0a1b2c3d4e5f601234568'',
         POST_submit_form (JStr ''xyz789'') JUndefined (FilePart (sample_pdf\<lparr>mimetype := ''image/png''\<rparr>)))]"]
  by (simp add: pdf_only_def sample_doc_def sample_pdf_def server_js_def submit_form_route_def
        submit_form_def fileFilter_def insertOne_def)

section \<open>Listing\<close>

text \<open>
  Claim C8, as stated, fails on \<^verbatim>\<open>server.js\<close>: its \<^verbatim>\<open>/get-files\<close> projects a document
  to five keys, without category and upload date.
\<close>

theorem get_files_server_js_counterexample:
  "get_files [sample_doc]
     = ([sample_doc],
        Reply 200 (Files [[(''_id'', JStr sample_id), (''filename'', JStr ''cv.pdf''),
                           (''status'', JStr ''under_processing''), (''passkey'', JStr ''abc123''),
                           (''feedback'', JNull)]]))"
  by (simp add: get_files_def sample_doc_def)

text \<open>
  Claim C8, amended. \<^verbatim>\<open>/get-files\<close> answers 200 with one object per stored document, in
  the order of the collection. In \<^verbatim>\<open>part_001\<close> the object has exactly the keys
  \<^verbatim>\<open>_id\<close>, \<^verbatim>\<open>filename\<close>, \<^verbatim>\<open>status\<close>, \<^verbatim>\<open>passkey\<close>, \<^verbatim>\<open>feedback\<close>, \<^verbatim>\<open>category\<close> and
  \<^verbatim>\<open>uploadDate\<close>, holding the identifier as a string, the four stored fields, the
  category or "Uncategorized" when it is absent or falsy, and the stored \<^verbatim>\<open>uploadedAt\<close>.
  In \<^verbatim>\<open>part_003\<close> the key \<^verbatim>\<open>uploadDate\<close> is missing, in \<^verbatim>\<open>server.js\<close> \<^verbatim>\<open>category\<close> is
  missing too. No version has a key \<^verbatim>\<open>data\<close>: the payload bytes are never listed.
\<close>

theorem get_files_projection:
  "(\<exists>fs. get_files_uploadDate c = (c, Reply 200 (Files fs)) \<and> length fs = length c \<and>
      (\<forall>k<length c.
         map fst (fs ! k) = [''_id'', ''filename'', ''status'', ''passkey'', ''feedback'', ''category'', ''uploadDate''] \<and>
         map snd (fs ! k) =
           [JStr (toString (id' (c ! k))), JStr (filename (c ! k)), status (c ! k), passkey (c ! k),
            feedback (c ! k),
            (if truthy (category (c ! k)) then category (c ! k) else JStr ''Uncategorized''),
            JDate (uploadedAt (c ! k))] \<and>
         ''data'' \<notin> set (map fst (fs ! k)))) \<and>
   (\<exists>fs. get_files_category c = (c, Reply 200 (Files fs)) \<and> length fs = length c \<and>
      (\<forall>k<length c.
         map fst (fs ! k) = [''_id'', ''filename'', ''status'', ''passkey'', ''feedback'', ''category''] \<and>
         map snd (fs ! k) =
           [JStr (toString (id' (c ! k))), JStr (filename (c ! k)), status (c ! k), passkey (c ! k),
            feedback (c ! k),
            (if truthy (category (c ! k)) then category (c ! k) else JStr ''Uncategorized'')] \<and>
         ''data'' \<notin> set (map fst (fs ! k)))) \<and>
   (\<exists>fs. get_files c = (c, Reply 200 (Files fs)) \<and> length fs = length c \<and>
      (\<forall>k<length c.
         map fst (fs ! k) = [''_id'', ''filename'', ''status'', ''passkey'', ''feedback''] \<and>
         map snd (fs ! k) =
           [JStr (toString (id' (c ! k))), JStr (filename (c ! k)), status (c ! k), passkey (c ! k),
            feedback (c ! k)] \<and>
         ''data'' \<notin> set (map fst (fs ! k))))"
  by (simp add: get_files_uploadDate_def get_files_category_def get_files_def js_or_def)

theorem get_files_projection_witness:
  "get_files_uploadDate [sample_doc]
     = ([sample_doc],
        Reply 200 (Files [[(''_id'', JStr sample_id), (''filename'', JStr ''cv.pdf''),
                           (''status'', JStr ''under_processing''), (''passkey'', JStr ''abc123''),
                           (''feedback'', JNull), (''category'', JStr ''Uncategorized''),
                           (''uploadDate'', JDate 1700000000000)]]))"
proof -
  obtain fs where fs: "get_files_uploadDate [sample_doc] = ([sample_doc], Reply 200 (Files fs))"
      "length fs = length [sample_doc]"
      "\<forall>k<length [sample_doc].
         map fst (fs ! k) = [''_id'', ''filename'', ''status'', ''passkey'', ''feedback'', ''category'', ''uploadDate''] \<and>
         map snd (fs ! k) =
           [JStr (toString (id' ([sample_doc] ! k))), JStr (filename ([sample_doc] ! k)),
            status ([sample_doc] ! k), passkey ([sample_doc] ! k), feedback ([sample_doc] ! k),
            (if truthy (category ([sample_doc] ! k)) then category ([sample_doc] ! k) else JStr ''Uncategorized''),
            JDate (uploadedAt ([sample_doc] ! k))] \<and>
         ''data'' \<notin> set (map fst (fs ! k))"
    using get_files_projection [of "[sample_doc]"] by blast
  from fs(2) obtain x where x: "fs = [x]"
    by (cases fs) auto
  have "map fst x = [''_id'', ''filename'', ''status'', ''passkey'', ''feedback'', ''category'', ''uploadDate'']"
    and "map snd x = [JStr sample_id, JStr ''cv.pdf'', JStr ''under_processing'', JStr ''abc123'', JNull,
                      JStr ''Uncategorized'', JDate 1700000000000]"
    using fs(3) x by (simp_all add: sample_doc_def)
  then have "x = zip [''_id'', ''filename'', ''status'', ''passkey'', ''feedback'', ''category'', ''uploadDate'']
                     [JStr sample_id, JStr ''cv.pdf'', JStr ''under_processing'', JStr ''abc123'', JNull,
                      JStr ''Uncategorized'', JDate 1700000000000]"
    by (metis zip_map_fst_snd)
  then show ?thesis
    using fs(1) x by simp
qed

section \<open>Deletion with a passkey\<close>

text \<open>What the passkey-checking handler of \<^verbatim>\<open>part_003\<close> does when it is called with a
  truthy passkey and an identifier the driver accepts.\<close>

lemma delete_file_passkey_handler:
  assumes "truthy body_passkey" and "ObjectId (JStr fileId) = Some i"
  shows "((\<forall>d\<in>set c. id' d \<noteq> i) \<longrightarrow>
            delete_file_passkey ObjectId fileId body_passkey c = (c, Reply 404 (Failure ''File not found''))) \<and>
         (findOne (\<lambda>d. id' d = i) c = Some file \<and> \<not> strict_eq (passkey file) body_passkey \<longrightarrow>
            delete_file_passkey ObjectId fileId body_passkey c
              = (c, Reply 403 (Failure ''Invalid passkey. File not deleted.''))) \<and>
         (findOne (\<lambda>d. id' d = i) c = Some file \<and> strict_eq (passkey file) body_passkey \<longrightarrow>
            delete_file_passkey ObjectId fileId body_passkey c
              = (fst (deleteOne (\<lambda>d. id' d = i) c), Reply 200 (Success ''File deleted successfully'')))"
  using assms findOne_None_iff [of "\<lambda>d. id' d = i" c] deleteOne_matched [of "\<lambda>d. id' d = i" c "file"]
  by (auto simp: delete_file_passkey_def split: prod.splits)

text \<open>
  Claim C5. In \<^verbatim>\<open>part_003\<close> the handler with the passkey check is registered for
  \<^verbatim>\<open>DELETE /delete-file/:id\<close> after a handler of the same route that checks nothing and
  always answers. Every such request is therefore answered by the first handler, which
  does not read the passkey: for an existing document and a passkey that does not match,
  the document is deleted and the answer is 200, where the handler with the check, had
  it been called, would answer 403 and keep the document.
\<close>

theorem delete_file_passkey_unreachable:
  assumes "ObjectId (JStr params_id) = Some i"
    and "findOne (\<lambda>d. id' d = i) c = Some file"
    and "truthy body_passkey"
    and "\<not> strict_eq (passkey file) body_passkey"
  shows "dispatch (part_003 ObjectId now gen) (DELETE_delete_file params_id body_passkey) c
           = (fst (deleteOne (\<lambda>d. id' d = i) c), Reply 200 (Success ''File deleted successfully'')) \<and>
         Suc (length (fst (dispatch (part_003 ObjectId now gen) (DELETE_delete_file params_id body_passkey) c)))
           = length c \<and>
         delete_file_passkey ObjectId params_id body_passkey c
           = (c, Reply 403 (Failure ''Invalid passkey. File not deleted.''))"
proof -
  have r: "dispatch (part_003 ObjectId now gen) (DELETE_delete_file params_id body_passkey) c
             = delete_file ObjectId params_id c"
    by (simp add: part_003_def)
  have n: "snd (deleteOne (\<lambda>d. id' d = i) c) = 1"
    using assms(2) by (rule deleteOne_matched)
  have d: "delete_file ObjectId params_id c
             = (fst (deleteOne (\<lambda>d. id' d = i) c), Reply 200 (Success ''File deleted successfully''))"
    using assms(1) n by (cases "deleteOne (\<lambda>d. id' d = i) c") (simp add: delete_file_def)
  have g: "delete_file_passkey ObjectId params_id body_passkey c
             = (c, Reply 403 (Failure ''Invalid passkey. File not deleted.''))"
    using assms by (simp add: delete_file_passkey_def)
  show ?thesis
    using r d g deleteOne_length [OF assms(2)] by simp
qed

theorem delete_file_passkey_unreachable_witness:
  "hexObjectId (JStr sample_id) = Some (Oid sample_id) \<and>
   findOne (\<lambda>d. id' d = Oid sample_id) [sample_doc] = Some sample_doc \<and>
   truthy (JStr ''wrong'') \<and> \<not> strict_eq (passkey sample_doc) (JStr ''wrong'') \<and>
   dispatch (part_003 hexObjectId 1700000000001 (Oid ''65f0a1b2c3d4e5f601234568''))
      (DELETE_delete_file sample_id (JStr ''wrong'')) [sample_doc]
     = ([], Reply 200 (Success ''File deleted successfully'')) \<and>
   delete_file_passkey hexObjectId sample_id (JStr ''wrong'') [sample_doc]
     = ([sample_doc], Reply 403 (Failure ''Invalid passkey. File not deleted.''))"
  using delete_file_passkey_unreachable [of hexObjectId sample_id "Oid sample_id" "[sample_doc]" sample_doc
      "JStr ''wrong''" 1700000000001 "Oid ''65f0a1b2c3d4e5f601234568''"]
  by (simp add: hexObjectId_sample sample_doc_def)


end
